theory Spec2Isabelle
  imports Main "HOL-Library.AList" "HOL-Library.Multiset"
begin

section \<open>Python values used by the analyser\<close>

text \<open>
  Python strings are modelled as \<^typ>\<open>string\<close>, read as the UTF-8 bytes of the text.
  The analyser only concatenates strings, joins them, tests a suffix and replaces the
  ASCII characters \<open>.\<close> and \<open>/\<close>; all of these act on the UTF-8 bytes exactly as they act
  on the code points.

  A Python \<open>dict\<close> keeps its keys in insertion order, and assigning to a key that is
  already present keeps the key's position. That is \<^const>\<open>AList.update\<close> on an
  association list, so dictionaries whose order is observable are association lists.
\<close>

fun join_str :: "string \<Rightarrow> string list \<Rightarrow> string" where
  "join_str sep [] = []"
| "join_str sep [x] = x"
| "join_str sep (x # y # ys) = x @ sep @ join_str sep (y # ys)"

definition replace_char :: "char \<Rightarrow> char \<Rightarrow> string \<Rightarrow> string" where
  "replace_char old new s = map (\<lambda>c. if c = old then new else c) s"

definition endswith :: "string \<Rightarrow> string \<Rightarrow> bool" where
  "endswith s suf = (length suf \<le> length s \<and> drop (length s - length suf) s = suf)"

text \<open>\<open>str(x)\<close> of an optional string inside an f-string: \<open>None\<close> prints as \<open>None\<close>.\<close>

fun str_opt :: "string option \<Rightarrow> string" where
  "str_opt None = ''None''"
| "str_opt (Some s) = s"

section \<open>The syntax tree and \<open>ast.walk\<close>\<close>

text \<open>
  The nodes of Python's \<open>ast\<close> module, as far as \<open>analyze_python_file\<close> tells them
  apart: \<open>Import\<close> (field \<open>names\<close>), \<open>ImportFrom\<close> (fields \<open>module\<close>, \<open>names\<close>,
  \<open>level\<close>), \<open>FunctionDef\<close> (its \<open>name\<close> and its child nodes in the order of
  \<open>iter_child_nodes\<close>: arguments, body, decorators, return annotation), \<open>ClassDef\<close>
  (fields \<open>name\<close>, \<open>bases\<close>, \<open>keywords\<close>, \<open>body\<close>, \<open>decorator_list\<close>) and every other
  kind of node (\<open>Module\<close>, \<open>AsyncFunctionDef\<close>, statements, expressions, \<open>alias\<close>, ...)
  with its child nodes.
\<close>

datatype import_alias = Alias (alias_name: string) (asname: "string option")

datatype node =
    Import "import_alias list"
  | ImportFrom "string option" "import_alias list" nat
  | FunctionDef string "node list"
  | ClassDef string "node list" "node list" "node list" "node list"
  | Other "node list"

text \<open>
  \<open>ast.iter_child_nodes\<close>: the child nodes in field order. The \<open>alias\<close> children of an
  import are nodes too; they have no children and are of none of the four kinds.
\<close>

fun iter_child_nodes :: "node \<Rightarrow> node list" where
  "iter_child_nodes (Import names) = map (\<lambda>a. Other []) names"
| "iter_child_nodes (ImportFrom module names level) = map (\<lambda>a. Other []) names"
| "iter_child_nodes (FunctionDef name children) = children"
| "iter_child_nodes (ClassDef name bases keywords body decorator_list) =
     bases @ keywords @ body @ decorator_list"
| "iter_child_nodes (Other children) = children"

fun node_count :: "node \<Rightarrow> nat" where
  "node_count (Import names) = Suc (length names)"
| "node_count (ImportFrom module names level) = Suc (length names)"
| "node_count (FunctionDef name children) = Suc (sum_list (map node_count children))"
| "node_count (ClassDef name bases keywords body decorator_list) =
     Suc (sum_list (map node_count bases) + sum_list (map node_count keywords)
          + sum_list (map node_count body) + sum_list (map node_count decorator_list))"
| "node_count (Other children) = Suc (sum_list (map node_count children))"

text \<open>
  \<open>ast.walk\<close>: a queue that starts with the root; each step pops the first node, appends
  its children at the end and yields the node (breadth first).
\<close>

function walk_queue :: "node list \<Rightarrow> node list" where
  "walk_queue [] = []"
| "walk_queue (n # todo) = n # walk_queue (todo @ iter_child_nodes n)"
  by pat_completeness auto
termination
proof (relation "measure (\<lambda>q. sum_list (map node_count q))")
  show "wf (measure (\<lambda>q. sum_list (map node_count q)))"
    by simp
next
  fix n :: node and todo :: "node list"
  have "sum_list (map (\<lambda>a. Suc 0) names) = length names" for names :: "import_alias list"
    by (induction names) simp_all
  then have "node_count n = Suc (sum_list (map node_count (iter_child_nodes n)))"
    by (cases n) (simp_all add: comp_def)
  then show "(todo @ iter_child_nodes n, n # todo) \<in> measure (\<lambda>q. sum_list (map node_count q))"
    by simp
qed

definition walk :: "node \<Rightarrow> node list" where
  "walk tree = walk_queue [tree]"

section \<open>The structure of one file\<close>

text \<open>
  The dictionary \<open>{'imports': [...], 'functions': [...], 'classes': {...}}\<close>. Only the key
  \<open>'imports'\<close> is ever deleted, so it alone is optional (field \<open>imports_key\<close>; the fields carry the suffix \<open>_key\<close>): \<open>None\<close> is
  the absent key.
\<close>

record file_structure =
  imports_key :: "string list option"
  functions_key :: "string list"
  classes_key :: "(string \<times> string list) list"

datatype exn = SyntaxError string | OtherException string

text \<open>
  What the analyser takes from outside: the directory listing of \<open>os.walk\<close>, the path
  functions, the contents of a file (\<open>open\<close> and \<open>read\<close>) and \<open>ast.parse\<close>. Reading and
  parsing can raise; \<open>SyntaxError msg\<close> carries \<open>str(e)\<close>.
\<close>

record env =
  os_walk :: "string \<Rightarrow> (string \<times> string list \<times> string list) list"
  path_join :: "string \<Rightarrow> string \<Rightarrow> string"
  relpath :: "string \<Rightarrow> string \<Rightarrow> string"
  read_file :: "string \<Rightarrow> exn + string"
  ast_parse :: "string \<Rightarrow> string \<Rightarrow> exn + node"

definition empty_structure :: file_structure where
  "empty_structure = \<lparr>imports_key = Some [], functions_key = [], classes_key = []\<rparr>"

text \<open>\<open>structure['imports'].append(x)\<close>; the key is present during the whole loop.\<close>

definition imports_append :: "string \<Rightarrow> file_structure \<Rightarrow> file_structure" where
  "imports_append x s = s\<lparr>imports_key := map_option (\<lambda>xs. xs @ [x]) (imports_key s)\<rparr>"

fun is_FunctionDef :: "node \<Rightarrow> bool" where
  "is_FunctionDef (FunctionDef name children) = True"
| "is_FunctionDef n = False"

fun node_name :: "node \<Rightarrow> string" where
  "node_name (FunctionDef name children) = name"
| "node_name (ClassDef name bases keywords body decorator_list) = name"
| "node_name n = []"

definition class_methods :: "node list \<Rightarrow> string list" where
  "class_methods body = map node_name (filter is_FunctionDef body)"

text \<open>The body of the loop over \<open>ast.walk(tree)\<close>: one visited node.\<close>

fun visit :: "bool \<Rightarrow> file_structure \<Rightarrow> node \<Rightarrow> file_structure" where
  "visit exclude_imports s (Import names) =
     (if \<not> exclude_imports
      then foldl (\<lambda>s a. imports_append (''import '' @ alias_name a) s) s names
      else s)"
| "visit exclude_imports s (ImportFrom module names level) =
     (if \<not> exclude_imports
      then imports_append
             (''from '' @ str_opt module @ '' import '' @ join_str '', '' (map alias_name names)) s
      else s)"
| "visit exclude_imports s (FunctionDef name children) =
     s\<lparr>functions_key := functions_key s @ [name]\<rparr>"
| "visit exclude_imports s (ClassDef name bases keywords body decorator_list) =
     s\<lparr>classes_key := AList.update name (class_methods body) (classes_key s)\<rparr>"
| "visit exclude_imports s (Other children) = s"

definition analyze_tree :: "bool \<Rightarrow> node \<Rightarrow> file_structure" where
  "analyze_tree exclude_imports tree =
     (let s = foldl (visit exclude_imports) empty_structure (walk tree)
      in if exclude_imports then s\<lparr>imports_key := None\<rparr> else s)"

text \<open>
  The body of the \<open>try\<close> block: \<open>open\<close> and \<open>read\<close> the file, then \<open>ast.parse\<close> its text.
  Either step can raise.
\<close>

definition try_parse :: "env \<Rightarrow> string \<Rightarrow> exn + node" where
  "try_parse e file_path =
     (case read_file e file_path of
        Inl x \<Rightarrow> Inl x
      | Inr source \<Rightarrow> ast_parse e source file_path)"

text \<open>
  \<open>analyze_python_file\<close>, with the standard output threaded through: the lines printed so
  far go in, the lines printed after the call come out, next to the returned structure or
  the exception that leaves the function. Only \<open>SyntaxError\<close> is caught, and the handler
  returns the initial structure as it is.
\<close>

definition analyze_python_file ::
  "env \<Rightarrow> string \<Rightarrow> bool \<Rightarrow> string list \<Rightarrow> string list \<times> (exn + file_structure)" where
  "analyze_python_file e file_path exclude_imports out =
     (case try_parse e file_path of
        Inl (SyntaxError msg) \<Rightarrow>
          (out @ [''Syntax error in '' @ file_path @ '': '' @ msg], Inr empty_structure)
      | Inl (OtherException msg) \<Rightarrow> (out, Inl (OtherException msg))
      | Inr tree \<Rightarrow> (out, Inr (analyze_tree exclude_imports tree)))"

section \<open>The directory\<close>

type_synonym model = "(string \<times> file_structure) list"

text \<open>The inner loop of \<open>analyze_directory\<close>: the files of one directory \<open>root\<close>.\<close>

fun analyze_files ::
  "env \<Rightarrow> string \<Rightarrow> bool \<Rightarrow> string \<Rightarrow> string list \<Rightarrow> string list \<Rightarrow> model
     \<Rightarrow> string list \<times> (exn + model)" where
  "analyze_files e directory exclude_imports root [] out structure = (out, Inr structure)"
| "analyze_files e directory exclude_imports root (file # files) out structure =
     (if endswith file ''.py''
      then let rel_path = relpath e (path_join e root file) directory
           in (case analyze_python_file e (path_join e root file) exclude_imports out of
                 (out', Inl x) \<Rightarrow> (out', Inl x)
               | (out', Inr u) \<Rightarrow>
                   analyze_files e directory exclude_imports root files out'
                     (AList.update rel_path u structure))
      else analyze_files e directory exclude_imports root files out structure)"

text \<open>The outer loop: the triples that \<open>os.walk\<close> yields.\<close>

fun analyze_roots ::
  "env \<Rightarrow> string \<Rightarrow> bool \<Rightarrow> (string \<times> string list \<times> string list) list \<Rightarrow> string list \<Rightarrow> model
     \<Rightarrow> string list \<times> (exn + model)" where
  "analyze_roots e directory exclude_imports [] out structure = (out, Inr structure)"
| "analyze_roots e directory exclude_imports ((root, dirs, files) # rest) out structure =
     (case analyze_files e directory exclude_imports root files out structure of
        (out', Inl x) \<Rightarrow> (out', Inl x)
      | (out', Inr structure') \<Rightarrow>
          analyze_roots e directory exclude_imports rest out' structure')"

definition analyze_directory ::
  "env \<Rightarrow> string \<Rightarrow> bool \<Rightarrow> string list \<Rightarrow> string list \<times> (exn + model)" where
  "analyze_directory e directory exclude_imports out =
     analyze_roots e directory exclude_imports (os_walk e directory) out []"

section \<open>The text renderer\<close>

text \<open>
  \<open>print_structure\<close> appends one entry to the standard output for every call of \<open>print\<close>.
  Its first argument is not a parameter of the Python function: it is the value of the
  module-level \<open>args.exclude_imports\<close>, which the function reads when the \<open>'imports'\<close>
  entry of a file is a non-empty list.
\<close>

definition print_imports :: "bool \<Rightarrow> string \<Rightarrow> file_structure \<Rightarrow> string list \<Rightarrow> string list" where
  "print_imports args_exclude_imports indent contents out =
     (case imports_key contents of
        None \<Rightarrow> out
      | Some imps \<Rightarrow>
          if imps \<noteq> [] \<and> \<not> args_exclude_imports
          then foldl (\<lambda>out imp. out @ [indent @ ''  - '' @ imp]) (out @ [indent @ ''Imports:'']) imps
          else out)"

definition print_functions :: "string \<Rightarrow> string \<Rightarrow> file_structure \<Rightarrow> string list \<Rightarrow> string list" where
  "print_functions indent func_symbol contents out =
     (if functions_key contents \<noteq> []
      then foldl (\<lambda>out func. out @ [indent @ func_symbol @ '' '' @ func @ ''()''])
             out (functions_key contents)
      else out)"

definition print_class :: "string \<Rightarrow> string \<Rightarrow> string list \<Rightarrow> string \<times> string list \<Rightarrow> string list" where
  "print_class indent class_symbol out cm =
     (case cm of (cls, methods) \<Rightarrow>
        foldl (\<lambda>out method. out @ [indent @ ''  - '' @ method @ ''()''])
          (out @ [indent @ class_symbol @ '' '' @ cls]) methods)"

definition print_class_entries :: "string \<Rightarrow> string \<Rightarrow> file_structure \<Rightarrow> string list \<Rightarrow> string list" where
  "print_class_entries indent class_symbol contents out =
     (if classes_key contents \<noteq> []
      then foldl (print_class indent class_symbol) out (classes_key contents)
      else out)"

definition print_file ::
  "bool \<Rightarrow> string \<Rightarrow> string \<Rightarrow> string \<Rightarrow> string list \<Rightarrow> string \<times> file_structure \<Rightarrow> string list" where
  "print_file args_exclude_imports indent func_symbol class_symbol out item =
     (case item of (file_path, contents) \<Rightarrow>
        (let out = out @ [file_path @ '':''];
             out = print_imports args_exclude_imports indent contents out;
             out = print_functions indent func_symbol contents out;
             out = print_class_entries indent class_symbol contents out
         in out @ ['''']))"

definition print_structure ::
  "bool \<Rightarrow> model \<Rightarrow> string \<Rightarrow> string \<Rightarrow> string \<Rightarrow> string list \<Rightarrow> string list" where
  "print_structure args_exclude_imports structure indent func_symbol class_symbol out =
     (if structure = [] then out @ [''No structure to print.'']
      else foldl (print_file args_exclude_imports indent func_symbol class_symbol) out structure)"

section \<open>The graph renderer\<close>

definition file_attrs :: string where
  "file_attrs = ''fillcolor=\"lightblue\", shape=box''"

definition class_attrs :: string where
  "class_attrs = ''fillcolor=\"lightgreen\", shape=ellipse''"

definition function_attrs :: string where
  "function_attrs = ''fillcolor=\"lightyellow\", shape=note''"

definition file_node_name :: "string \<Rightarrow> string" where
  "file_node_name file = replace_char CHR ''/'' CHR ''_'' (replace_char CHR ''.'' CHR ''_'' file)"

text \<open>The two f-strings of \<open>generate_dot\<close>: the declaration of a node and an edge.\<close>

definition node_line :: "string \<Rightarrow> string \<Rightarrow> string \<Rightarrow> string" where
  "node_line node attrs label =
     ''    '' @ node @ '' ['' @ attrs @ '', label=\"'' @ label @ ''\"];''"

definition edge_line :: "string \<Rightarrow> string \<Rightarrow> string" where
  "edge_line owner member = ''    '' @ owner @ '' -> '' @ member @ '';''"

definition dot_function :: "string \<Rightarrow> string list \<Rightarrow> string \<Rightarrow> string list" where
  "dot_function file_node lines func =
     (let func_node = file_node @ ''_func_'' @ func;
          lines = lines @ [node_line func_node function_attrs (func @ ''()'')]
      in lines @ [edge_line file_node func_node])"

definition dot_method :: "string \<Rightarrow> string list \<Rightarrow> string \<Rightarrow> string list" where
  "dot_method class_node lines method =
     (let method_node = class_node @ ''_meth_'' @ method;
          lines = lines @ [node_line method_node function_attrs (method @ ''()'')]
      in lines @ [edge_line class_node method_node])"

definition dot_class :: "string \<Rightarrow> string list \<Rightarrow> string \<times> string list \<Rightarrow> string list" where
  "dot_class file_node lines cm =
     (case cm of (cls, methods) \<Rightarrow>
        (let class_node = file_node @ ''_cls_'' @ cls;
             lines = lines @ [node_line class_node class_attrs cls];
             lines = lines @ [edge_line file_node class_node]
         in foldl (dot_method class_node) lines methods))"

definition dot_file :: "string list \<Rightarrow> string \<times> file_structure \<Rightarrow> string list" where
  "dot_file lines item =
     (case item of (file, content) \<Rightarrow>
        (let file_node = file_node_name file;
             lines = lines @ [node_line file_node file_attrs file];
             lines = foldl (dot_function file_node) lines (functions_key content)
         in foldl (dot_class file_node) lines (classes_key content)))"

definition dot_header :: "string list" where
  "dot_header =
     [''digraph G {'',
      ''    rankdir=LR;'',
      ''    node [style=filled, fontname=\"Helvetica\"];'',
      ''    edge [arrowhead=none];'']"

definition generate_dot_lines :: "model \<Rightarrow> string list" where
  "generate_dot_lines structure = foldl dot_file dot_header structure @ [''}'']"

definition generate_dot :: "model \<Rightarrow> string" where
  "generate_dot structure = join_str [CHR 0x0A] (generate_dot_lines structure)"

section \<open>Notions used to state the properties\<close>

text \<open>
  The nodes of a tree in pre-order: a node, then the subtrees of its children. Statements
  are children in the order of the source text, so among the definitions of a file (which
  are statements) the pre-order is the order in which they are written.
\<close>

fun preorder :: "node \<Rightarrow> node list" where
  "preorder (Import names) = Import names # map (\<lambda>a. Other []) names"
| "preorder (ImportFrom module names level) =
     ImportFrom module names level # map (\<lambda>a. Other []) names"
| "preorder (FunctionDef name children) =
     FunctionDef name children # concat (map preorder children)"
| "preorder (ClassDef name bases keywords body decorator_list) =
     ClassDef name bases keywords body decorator_list
       # concat (map preorder bases) @ concat (map preorder keywords)
       @ concat (map preorder body) @ concat (map preorder decorator_list)"
| "preorder (Other children) = Other children # concat (map preorder children)"

fun class_entry :: "node \<Rightarrow> (string \<times> string list) option" where
  "class_entry (ClassDef name bases keywords body decorator_list) =
     Some (name, class_methods body)"
| "class_entry n = None"

fun is_class_named :: "string \<Rightarrow> node \<Rightarrow> bool" where
  "is_class_named c (ClassDef name bases keywords body decorator_list) = (name = c)"
| "is_class_named c n = False"

fun class_body :: "node \<Rightarrow> node list" where
  "class_body (ClassDef name bases keywords body decorator_list) = body"
| "class_body n = []"

text \<open>
  The textual rendering of one node in \<open>imports\<close>, in the words of the specification: one
  string \<open>import <module>\<close> for each module that a plain import names, one string
  \<open>from <module> import <names>\<close> for a from-import, nothing for any other node.
\<close>

fun import_rendering :: "node \<Rightarrow> string list" where
  "import_rendering (Import names) = map (\<lambda>a. ''import '' @ alias_name a) names"
| "import_rendering (ImportFrom module names level) =
     [''from '' @ str_opt module @ '' import '' @ join_str '', '' (map alias_name names)]"
| "import_rendering n = []"

text \<open>
  The method list of the definition of class \<open>c\<close> that comes last in the source text,
  which is what \<open>classes[c]\<close> would hold if a later definition always replaced an
  earlier one.
\<close>

definition later_definition_methods :: "string \<Rightarrow> node \<Rightarrow> string list option" where
  "later_definition_methods c tree =
     (if filter (is_class_named c) (preorder tree) = [] then None
      else Some (class_methods (class_body (last (filter (is_class_named c) (preorder tree))))))"

text \<open>\<open>contents.get('imports')\<close>, with the absent key read as the empty list.\<close>

definition imports_list :: "file_structure \<Rightarrow> string list" where
  "imports_list contents = (case imports_key contents of None \<Rightarrow> [] | Some imps \<Rightarrow> imps)"

text \<open>
  The identifier of a file node in the words of the specification: the path separators
  and the dot of the extension become the joining character, every other character stays.
  \<open>split_extension\<close> cuts a path before the last dot of its last component.
\<close>

definition split_extension :: "string \<Rightarrow> string \<times> string" where
  "split_extension path =
     (let tail = takeWhile (\<lambda>c. c \<noteq> CHR ''.'' \<and> c \<noteq> CHR ''/'') (rev path);
          rest = drop (length tail) (rev path)
      in case rest of
           [] \<Rightarrow> (path, [])
         | c # before \<Rightarrow> if c = CHR ''.'' then (rev before, c # rev tail) else (path, []))"

definition separators_and_extension_replaced :: "string \<Rightarrow> string" where
  "separators_and_extension_replaced path =
     (case split_extension path of
        (stem, ext) \<Rightarrow> replace_char CHR ''/'' CHR ''_'' stem @ replace_char CHR ''.'' CHR ''_'' ext)"


text \<open>Reading or parsing the file raises an exception that is not a \<open>SyntaxError\<close>.\<close>

definition raises_other :: "env \<Rightarrow> string \<Rightarrow> bool" where
  "raises_other e file_path =
     (case try_parse e file_path of Inl (OtherException msg) \<Rightarrow> True | _ \<Rightarrow> False)"

subsection \<open>Example inputs\<close>

text \<open>
  \<^verbatim>\<open>import os, sys as system\<close>, \<^verbatim>\<open>from a import b, c\<close>, a function \<open>f\<close> with an inner
  function, and a class \<open>C\<close> with the methods \<open>m1\<close> and \<open>m2\<close>.
\<close>

definition example_tree :: node where
  "example_tree =
     Other [Import [Alias ''os'' None, Alias ''sys'' (Some ''system'')],
            ImportFrom (Some ''a'') [Alias ''b'' None, Alias ''c'' None] 0,
            FunctionDef ''f'' [Other [], FunctionDef ''inner'' [Other [], Other []]],
            ClassDef ''C'' [] []
              [FunctionDef ''m1'' [Other [], Other []], FunctionDef ''m2'' [Other [], Other []]] []]"

text \<open>
  A class \<open>A\<close> that holds a nested class \<open>C\<close> with the method \<open>m1\<close>, followed by a
  top-level class \<open>C\<close> with the method \<open>m2\<close>.
\<close>

definition nested_example :: node where
  "nested_example =
     Other [ClassDef ''A'' [] []
              [ClassDef ''C'' [] [] [FunctionDef ''m1'' [Other [], Other []]] []] [],
            ClassDef ''C'' [] [] [FunctionDef ''m2'' [Other [], Other []]] []]"

text \<open>
  \<^verbatim>\<open>import os, sys as system\<close>, a function \<open>f\<close> whose body holds
  \<^verbatim>\<open>from a.b import c, d as e, g\<close>, and the relative import \<^verbatim>\<open>from . import x\<close>, whose
  \<open>module\<close> is \<open>None\<close>.
\<close>

definition imports_example :: node where
  "imports_example =
     Other [Import [Alias ''os'' None, Alias ''sys'' (Some ''system'')],
            FunctionDef ''f''
              [Other [],
               ImportFrom (Some ''a.b'') [Alias ''c'' None, Alias ''d'' (Some ''e''), Alias ''g'' None] 0],
            ImportFrom None [Alias ''x'' None] 1]"


text \<open>
  A directory with \<open>good.py\<close>, \<open>bad.py\<close> (a syntax error), a text file and \<open>pkg/mod.py\<close>.
\<close>

definition example_env :: env where
  "example_env =
     \<lparr>os_walk = (\<lambda>d. [(d, [''pkg''], [''good.py'', ''bad.py'', ''notes.txt'']),
                      (d @ ''/pkg'', [], [''mod.py''])]),
      path_join = (\<lambda>a b. a @ ''/'' @ b),
      relpath = (\<lambda>p d. drop (length d + 1) p),
      read_file = (\<lambda>p. if p = ''proj/bad.py'' then Inr ''def f(:''
                       else if p = ''proj/good.py'' then Inr ''import os''
                       else if p = ''proj/pkg/mod.py'' then Inr ''def f(): pass''
                       else Inl (OtherException ''FileNotFoundError'')),
      ast_parse = (\<lambda>source filename.
                     if source = ''def f(:''
                     then Inl (SyntaxError ''invalid syntax (bad.py, line 1)'')
                     else if source = ''import os'' then Inr (Other [Import [Alias ''os'' None]])
                     else Inr (Other [FunctionDef ''f'' [Other [], Other []]]))\<rparr>"

section \<open>The walk visits every node once\<close>


lemma sum_list_const_one: "sum_list (map (\<lambda>a. Suc 0) xs) = length xs"
  by (induction xs) simp_all

lemma node_count_children:
  "node_count n = Suc (sum_list (map node_count (iter_child_nodes n)))"
  by (cases n) (simp_all add: comp_def sum_list_const_one)

lemma preorder_leaves: "concat (map (\<lambda>a. preorder (Other [])) names) = map (\<lambda>a. Other []) names"
  by (induction names) simp_all

lemma preorder_children: "preorder n = n # concat (map preorder (iter_child_nodes n))"
  by (cases n) (simp_all add: comp_def preorder_leaves)

lemma mset_walk_queue: "mset (walk_queue q) = mset (concat (map preorder q))"
proof (induction q rule: walk_queue.induct)
  case 1
  show ?case by simp
next
  case (2 n todo)
  have "mset (preorder n) = {#n#} + mset (concat (map preorder (iter_child_nodes n)))"
    by (subst preorder_children) simp
  with 2 show ?case by simp
qed

lemma mset_walk: "mset (walk tree) = mset (preorder tree)"
  unfolding walk_def mset_walk_queue by simp

lemma set_walk: "set (walk tree) = set (preorder tree)"
  using mset_walk [of tree] by (metis set_mset_mset)

lemma functions_imports_append [simp]: "functions_key (imports_append x s) = functions_key s"
  by (simp add: imports_append_def)

lemma classes_imports_append [simp]: "classes_key (imports_append x s) = classes_key s"
  by (simp add: imports_append_def)

lemma functions_import_names [simp]:
  "functions_key (foldl (\<lambda>s a. imports_append (f a) s) s names) = functions_key s"
  by (induction names arbitrary: s) simp_all

lemma classes_import_names [simp]:
  "classes_key (foldl (\<lambda>s a. imports_append (f a) s) s names) = classes_key s"
  by (induction names arbitrary: s) simp_all

lemma functions_foldl_visit:
  "functions_key (foldl (visit ex) s ns) = functions_key s @ map node_name (filter is_FunctionDef ns)"
proof (induction ns arbitrary: s)
  case Nil
  show ?case by simp
next
  case (Cons n ns)
  show ?case by (cases n) (simp_all add: Cons.IH)
qed


lemma node_count_child:
  assumes "ch \<in> set (iter_child_nodes t)"
  shows "node_count ch < node_count t"
proof -
  have "node_count ch \<le> sum_list (map node_count (iter_child_nodes t))"
    using assms by (simp add: member_le_sum_list)
  then show ?thesis by (simp add: node_count_children [of t])
qed

lemma set_preorder:
  "set (preorder t) = insert t (\<Union>ch \<in> set (iter_child_nodes t). set (preorder ch))"
  by (subst preorder_children) simp

lemma preorder_self: "t \<in> set (preorder t)"
  by (subst preorder_children) simp

lemma preorder_subtree:
  "n \<in> set (preorder t) \<Longrightarrow> set (preorder n) \<subseteq> set (preorder t)"
proof (induction t rule: measure_induct_rule [of node_count])
  case (less t)
  from less.prems have "n = t \<or> (\<exists>ch \<in> set (iter_child_nodes t). n \<in> set (preorder ch))"
    by (subst (asm) set_preorder) auto
  then show ?case
  proof
    assume "n = t"
    then show ?thesis by simp
  next
    assume "\<exists>ch \<in> set (iter_child_nodes t). n \<in> set (preorder ch)"
    then obtain ch where ch: "ch \<in> set (iter_child_nodes t)" "n \<in> set (preorder ch)"
      by blast
    then have "set (preorder n) \<subseteq> set (preorder ch)"
      using less.IH node_count_child by blast
    moreover have "set (preorder ch) \<subseteq> set (preorder t)"
      using ch(1) by (subst (2) set_preorder) auto
    ultimately show ?thesis by blast
  qed
qed

lemma walk_closed:
  assumes "n \<in> set (walk tree)" and "ch \<in> set (iter_child_nodes n)"
  shows "ch \<in> set (walk tree)"
proof -
  have "ch \<in> set (preorder n)"
    using assms(2) preorder_self [of ch] by (subst set_preorder) auto
  then show ?thesis
    using assms(1) preorder_subtree [of n tree] by (auto simp: set_walk)
qed

lemma imports_foldl_visit_excluded:
  "imports_key (foldl (visit True) s ns) = imports_key s"
proof (induction ns arbitrary: s)
  case Nil
  show ?case by simp
next
  case (Cons n ns)
  show ?case by (cases n) (simp_all add: Cons.IH)
qed

lemma imports_imports_append [simp]:
  "imports_key (imports_append x s) = map_option (\<lambda>xs. xs @ [x]) (imports_key s)"
  by (simp add: imports_append_def)

lemma imports_import_names:
  "imports_key (foldl (\<lambda>s a. imports_append (f a) s) s names)
     = map_option (\<lambda>xs. xs @ map f names) (imports_key s)"
proof (induction names arbitrary: s)
  case Nil
  show ?case by (simp add: option.map_ident)
next
  case (Cons a names)
  show ?case
    by (simp add: Cons.IH option.map_comp comp_def)
qed

lemma imports_foldl_visit:
  "imports_key (foldl (visit False) s ns)
     = map_option (\<lambda>xs. xs @ concat (map import_rendering ns)) (imports_key s)"
proof (induction ns arbitrary: s)
  case Nil
  show ?case by (simp add: option.map_ident)
next
  case (Cons n ns)
  show ?case
    by (cases n)
       (simp_all add: Cons.IH imports_import_names option.map_comp comp_def)
qed

lemma classes_visit:
  "classes_key (visit ex s n)
     = (case class_entry n of None \<Rightarrow> classes_key s | Some (k, v) \<Rightarrow> AList.update k v (classes_key s))"
  by (cases n) simp_all

lemma map_of_classes_visit:
  "map_of (classes_key (visit ex s n)) c
     = (if is_class_named c n then Some (class_methods (class_body n)) else map_of (classes_key s) c)"
  by (cases n) (simp_all add: AList.update_conv')

lemma map_of_classes_foldl_visit:
  "map_of (classes_key (foldl (visit ex) s ns)) c
     = (if filter (is_class_named c) ns = [] then map_of (classes_key s) c
        else Some (class_methods (class_body (last (filter (is_class_named c) ns)))))"
proof (induction ns rule: rev_induct)
  case Nil
  show ?case by simp
next
  case (snoc n ns)
  show ?case
    by (simp add: map_of_classes_visit snoc.IH)
qed

lemma distinct_classes_foldl_visit:
  "distinct (map fst (classes_key s)) \<Longrightarrow> distinct (map fst (classes_key (foldl (visit ex) s ns)))"
proof (induction ns rule: rev_induct)
  case Nil
  then show ?case by simp
next
  case (snoc n ns)
  then show ?case
    by (simp add: classes_visit AList.distinct_update split: option.split)
qed

lemma set_update_subset: "set (AList.update k v al) \<subseteq> insert (k, v) (set al)"
  by (induction al) auto

lemma classes_foldl_visit_origin:
  assumes "(k, v) \<in> set (classes_key (foldl (visit ex) s ns))"
  shows "(k, v) \<in> set (classes_key s) \<or> (\<exists>n \<in> set ns. class_entry n = Some (k, v))"
  using assms
proof (induction ns rule: rev_induct)
  case Nil
  then show ?case by simp
next
  case (snoc n ns)
  show ?case
  proof (cases "class_entry n")
    case None
    with snoc show ?thesis by (auto simp: classes_visit)
  next
    case (Some kv)
    obtain k' v' where kv: "kv = (k', v')" by (cases kv)
    from snoc.prems Some kv
    have "(k, v) \<in> set (AList.update k' v' (classes_key (foldl (visit ex) s ns)))"
      by (simp add: classes_visit)
    then have "(k, v) = (k', v') \<or> (k, v) \<in> set (classes_key (foldl (visit ex) s ns))"
      using set_update_subset by fastforce
    with snoc.IH Some kv show ?thesis by auto
  qed
qed

section \<open>The empty model\<close>

text \<open>
  C10. With an empty model, the text renderer prints the single line
  \<open>No structure to print.\<close> and nothing else: no file header, no blank line.
\<close>

theorem print_structure_empty:
  "print_structure args_exclude_imports [] indent func_symbol class_symbol out
     = out @ [''No structure to print.'']"
  by (simp add: print_structure_def)

section \<open>Functions at every depth\<close>

lemma functions_analyze_tree:
  "functions_key (analyze_tree ex tree) = map node_name (filter is_FunctionDef (walk tree))"
  by (simp add: analyze_tree_def Let_def functions_foldl_visit empty_structure_def)

lemma classes_analyze_tree:
  "classes_key (analyze_tree ex tree) = classes_key (foldl (visit ex) empty_structure (walk tree))"
  by (simp add: analyze_tree_def Let_def)

lemma class_methods_walked:
  assumes "n \<in> set (walk tree)" and "class_entry n = Some (k, v)"
  shows "set v \<subseteq> set (map node_name (filter is_FunctionDef (walk tree)))"
proof
  fix m
  assume m: "m \<in> set v"
  from assms(2) obtain bases kws body decorator_list
    where n: "n = ClassDef k bases kws body decorator_list" and v: "v = class_methods body"
    by (cases n) auto
  from m v obtain d where d: "d \<in> set body" "is_FunctionDef d" "m = node_name d"
    by (auto simp: class_methods_def)
  from d(1) n have "d \<in> set (iter_child_nodes n)" by simp
  with assms(1) have "d \<in> set (walk tree)" by (rule walk_closed)
  with d show "m \<in> set (map node_name (filter is_FunctionDef (walk tree)))" by auto
qed

text \<open>
  C3. The flat list \<open>functions\<close> holds the name of every \<open>FunctionDef\<close> node that the walk
  visits, in the order of the walk; the walk visits every node of the tree exactly once,
  whatever its depth; and every method name listed under a class in \<open>classes\<close> is also in
  \<open>functions\<close>.
\<close>

theorem every_function_def_collected:
  "functions_key (analyze_tree exclude_imports tree)
     = map node_name (filter is_FunctionDef (walk tree))
   \<and> mset (walk tree) = mset (preorder tree)
   \<and> (\<forall>(cls, methods) \<in> set (classes_key (analyze_tree exclude_imports tree)).
         set methods \<subseteq> set (functions_key (analyze_tree exclude_imports tree)))"
proof (intro conjI)
  show "functions_key (analyze_tree exclude_imports tree)
          = map node_name (filter is_FunctionDef (walk tree))"
    by (rule functions_analyze_tree)
  show "mset (walk tree) = mset (preorder tree)"
    by (rule mset_walk)
  show "\<forall>(cls, methods) \<in> set (classes_key (analyze_tree exclude_imports tree)).
          set methods \<subseteq> set (functions_key (analyze_tree exclude_imports tree))"
  proof (clarify)
    fix cls methods m
    assume in_classes: "(cls, methods) \<in> set (classes_key (analyze_tree exclude_imports tree))"
      and m: "m \<in> set methods"
    from in_classes
    have "(cls, methods) \<in> set (classes_key empty_structure)
            \<or> (\<exists>n \<in> set (walk tree). class_entry n = Some (cls, methods))"
      unfolding classes_analyze_tree by (rule classes_foldl_visit_origin)
    then obtain n where "n \<in> set (walk tree)" "class_entry n = Some (cls, methods)"
      by (auto simp: empty_structure_def)
    then have "set methods \<subseteq> set (map node_name (filter is_FunctionDef (walk tree)))"
      by (rule class_methods_walked)
    with m show "m \<in> set (functions_key (analyze_tree exclude_imports tree))"
      unfolding functions_analyze_tree by blast
  qed
qed

lemma analyze_example_tree:
  "analyze_tree False example_tree
     = \<lparr>imports_key = Some [''import os'', ''import sys'', ''from a import b, c''],
        functions_key = [''f'', ''inner'', ''m1'', ''m2''],
        classes_key = [(''C'', [''m1'', ''m2''])]\<rparr>"
  by (simp add: analyze_tree_def example_tree_def walk_def empty_structure_def
        class_methods_def imports_append_def)

theorem every_function_def_collected_witness:
  "(''C'', [''m1'', ''m2'']) \<in> set (classes_key (analyze_tree False example_tree))
   \<and> functions_key (analyze_tree False example_tree) = [''f'', ''inner'', ''m1'', ''m2'']
   \<and> set [''m1'', ''m2''] \<subseteq> set (functions_key (analyze_tree False example_tree))"
proof -
  have mem: "(''C'', [''m1'', ''m2'']) \<in> set (classes_key (analyze_tree False example_tree))"
    by (simp add: analyze_example_tree)
  have fs: "functions_key (analyze_tree False example_tree) = [''f'', ''inner'', ''m1'', ''m2'']"
    by (simp add: analyze_example_tree)
  from every_function_def_collected [of False example_tree] mem
  have "set [''m1'', ''m2''] \<subseteq> set (functions_key (analyze_tree False example_tree))"
    by blast
  with mem fs show ?thesis by blast
qed

section \<open>Classes and imports\<close>

lemma walk_queue_levels:
  "walk_queue (xs @ ys) = xs @ walk_queue (ys @ concat (map iter_child_nodes xs))"
  by (induction xs arbitrary: ys) simp_all

lemma walk_levels:
  "walk tree = tree # iter_child_nodes tree
                 @ walk_queue (concat (map iter_child_nodes (iter_child_nodes tree)))"
  using walk_queue_levels [of "iter_child_nodes tree" "[]"] by (simp add: walk_def)

text \<open>
  C4, as amended. The keys of \<open>classes\<close> are unique, and the entry of a name \<open>c\<close> is the
  list of the names of the \<open>FunctionDef\<close> statements directly in the body, in their order,
  of the class definition named \<open>c\<close> that the walk visits last; there is no entry when no
  class definition is named \<open>c\<close>. The walk is breadth first: the root, then the children
  of the root in their order, then every deeper node.
\<close>

theorem classes_last_visited_wins:
  "distinct (map fst (classes_key (analyze_tree exclude_imports tree)))
   \<and> map_of (classes_key (analyze_tree exclude_imports tree)) c
       = (if filter (is_class_named c) (walk tree) = [] then None
          else Some (class_methods (class_body (last (filter (is_class_named c) (walk tree))))))
   \<and> walk tree = tree # iter_child_nodes tree
                     @ walk_queue (concat (map iter_child_nodes (iter_child_nodes tree)))"
proof (intro conjI)
  have "distinct (map fst (classes_key empty_structure))"
    by (simp add: empty_structure_def)
  then show "distinct (map fst (classes_key (analyze_tree exclude_imports tree)))"
    unfolding classes_analyze_tree by (rule distinct_classes_foldl_visit)
  have "map_of (classes_key empty_structure) c = None"
    by (simp add: empty_structure_def)
  then show "map_of (classes_key (analyze_tree exclude_imports tree)) c
       = (if filter (is_class_named c) (walk tree) = [] then None
          else Some (class_methods (class_body (last (filter (is_class_named c) (walk tree))))))"
    unfolding classes_analyze_tree map_of_classes_foldl_visit by simp
  show "walk tree = tree # iter_child_nodes tree
                     @ walk_queue (concat (map iter_child_nodes (iter_child_nodes tree)))"
    by (rule walk_levels)
qed

lemma walk_nested_example:
  "filter (is_class_named ''C'') (walk nested_example)
     = [ClassDef ''C'' [] [] [FunctionDef ''m2'' [Other [], Other []]] [],
        ClassDef ''C'' [] [] [FunctionDef ''m1'' [Other [], Other []]] []]"
  by (simp add: nested_example_def walk_def)

theorem classes_last_visited_wins_witness:
  "map_of (classes_key (analyze_tree False nested_example)) ''C'' = Some [''m1'']
   \<and> distinct (map fst (classes_key (analyze_tree False nested_example)))"
  using classes_last_visited_wins [of False nested_example "''C''"]
  by (simp add: walk_nested_example class_methods_def)

text \<open>
  The claim as stated fails on a nested class. In \<open>nested_example\<close> the class \<open>C\<close> with
  the method \<open>m2\<close> is the later definition of the file, yet \<open>classes['C']\<close> ends as
  \<open>['m1']\<close>: the walk visits the top-level \<open>C\<close> before the nested one.
\<close>

theorem later_definition_counterexample:
  "later_definition_methods ''C'' nested_example = Some [''m2'']
   \<and> map_of (classes_key (analyze_tree False nested_example)) ''C'' = Some [''m1'']
   \<and> map_of (classes_key (analyze_tree False nested_example)) ''C''
       \<noteq> later_definition_methods ''C'' nested_example"
proof -
  have a: "later_definition_methods ''C'' nested_example = Some [''m2'']"
    by (simp add: later_definition_methods_def nested_example_def class_methods_def)
  have b: "map_of (classes_key (analyze_tree False nested_example)) ''C'' = Some [''m1'']"
    by (simp add: analyze_tree_def nested_example_def walk_def empty_structure_def
          class_methods_def)
  from a b show ?thesis by simp
qed

section \<open>Files that do not parse\<close>

lemma analyze_python_file_syntax_error:
  assumes "try_parse e file_path = Inl (SyntaxError msg)"
  shows "analyze_python_file e file_path exclude_imports out
           = (out @ [''Syntax error in '' @ file_path @ '': '' @ msg], Inr empty_structure)"
  using assms by (simp add: analyze_python_file_def)

lemma analyze_python_file_returns:
  assumes "\<not> raises_other e file_path"
  shows "\<exists>out' u. analyze_python_file e file_path exclude_imports out = (out', Inr u)"
  using assms
  by (auto simp: analyze_python_file_def raises_other_def split: sum.splits exn.splits)

lemma analyze_files_returns:
  assumes "\<forall>f \<in> set files. endswith f ''.py'' \<longrightarrow> \<not> raises_other e (path_join e root f)"
  shows "\<exists>out' m'. analyze_files e directory exclude_imports root files out m = (out', Inr m')
           \<and> fst ` set m' = fst ` set m
                \<union> {relpath e (path_join e root f) directory | f. f \<in> set files \<and> endswith f ''.py''}"
  using assms
proof (induction files arbitrary: out m)
  case Nil
  show ?case by simp
next
  case (Cons fl files)
  show ?case
  proof (cases "endswith fl ''.py''")
    case False
    with Cons.IH [of out m] Cons.prems show ?thesis by auto
  next
    case True
    with Cons.prems have "\<not> raises_other e (path_join e root fl)" by simp
    then obtain out1 u
      where u: "analyze_python_file e (path_join e root fl) exclude_imports out = (out1, Inr u)"
      using analyze_python_file_returns by blast
    let ?m1 = "AList.update (relpath e (path_join e root fl) directory) u m"
    from Cons.prems have "\<forall>f \<in> set files. endswith f ''.py'' \<longrightarrow> \<not> raises_other e (path_join e root f)"
      by simp
    from Cons.IH [OF this, of out1 ?m1]
    obtain out' m' where
      r: "analyze_files e directory exclude_imports root files out1 ?m1 = (out', Inr m')"
      and k: "fst ` set m' = fst ` set ?m1
                \<union> {relpath e (path_join e root f) directory | f. f \<in> set files \<and> endswith f ''.py''}"
      by blast
    have "analyze_files e directory exclude_imports root (fl # files) out m = (out', Inr m')"
      using True u r by (simp add: Let_def)
    moreover have "fst ` set m' = fst ` set m
        \<union> {relpath e (path_join e root f) directory | f. f \<in> set (fl # files) \<and> endswith f ''.py''}"
      using k True by (auto simp: AList.dom_update)
    ultimately show ?thesis by blast
  qed
qed

lemma analyze_roots_returns:
  assumes "\<forall>(r, ds, fs) \<in> set triples. \<forall>f \<in> set fs.
             endswith f ''.py'' \<longrightarrow> \<not> raises_other e (path_join e r f)"
  shows "\<exists>out' m'. analyze_roots e directory exclude_imports triples out m = (out', Inr m')
           \<and> fst ` set m' = fst ` set m
                \<union> {relpath e (path_join e r f) directory | r ds fs f.
                     (r, ds, fs) \<in> set triples \<and> f \<in> set fs \<and> endswith f ''.py''}"
  using assms
proof (induction triples arbitrary: out m)
  case Nil
  show ?case by simp
next
  case (Cons t triples)
  obtain root dirs files where t: "t = (root, dirs, files)" by (cases t)
  from Cons.prems t
  have "\<forall>f \<in> set files. endswith f ''.py'' \<longrightarrow> \<not> raises_other e (path_join e root f)"
    by auto
  from analyze_files_returns [OF this, of directory exclude_imports out m]
  obtain out1 m1 where
    f: "analyze_files e directory exclude_imports root files out m = (out1, Inr m1)"
    and fk: "fst ` set m1 = fst ` set m
               \<union> {relpath e (path_join e root f) directory | f. f \<in> set files \<and> endswith f ''.py''}"
    by blast
  from Cons.prems have "\<forall>(r, ds, fs) \<in> set triples. \<forall>f \<in> set fs.
             endswith f ''.py'' \<longrightarrow> \<not> raises_other e (path_join e r f)"
    by simp
  from Cons.IH [OF this, of out1 m1]
  obtain out' m' where
    r: "analyze_roots e directory exclude_imports triples out1 m1 = (out', Inr m')"
    and rk: "fst ` set m' = fst ` set m1
               \<union> {relpath e (path_join e r f) directory | r ds fs f.
                    (r, ds, fs) \<in> set triples \<and> f \<in> set fs \<and> endswith f ''.py''}"
    by blast
  have "analyze_roots e directory exclude_imports (t # triples) out m = (out', Inr m')"
    using t f r by simp
  moreover have "fst ` set m' = fst ` set m
        \<union> {relpath e (path_join e r f) directory | r ds fs f.
             (r, ds, fs) \<in> set (t # triples) \<and> f \<in> set fs \<and> endswith f ''.py''}"
    unfolding rk fk using t by auto
  ultimately show ?case by blast
qed

text \<open>
  C1. When reading and parsing a listed \<open>.py\<close> file ends in a \<open>SyntaxError\<close>,
  \<open>analyze_python_file\<close> prints the diagnostic and returns the empty structure
  (\<open>imports = []\<close>, \<open>functions = []\<close>, \<open>classes = {}\<close>) instead of raising; and when no
  listed file raises any other exception, \<open>analyze_directory\<close> returns a model that has an
  entry under the relative path of that file.
\<close>

theorem syntax_error_file_kept:
  assumes "(root, dirs, files) \<in> set (os_walk e directory)"
    and "file \<in> set files"
    and "endswith file ''.py''"
    and "try_parse e (path_join e root file) = Inl (SyntaxError msg)"
    and "\<forall>(r, ds, fs) \<in> set (os_walk e directory). \<forall>f \<in> set fs.
           endswith f ''.py'' \<longrightarrow> \<not> raises_other e (path_join e r f)"
  shows "analyze_python_file e (path_join e root file) exclude_imports out0
           = (out0 @ [''Syntax error in '' @ path_join e root file @ '': '' @ msg],
              Inr \<lparr>imports_key = Some [], functions_key = [], classes_key = []\<rparr>)
         \<and> (\<exists>out' m. analyze_directory e directory exclude_imports out = (out', Inr m)
               \<and> relpath e (path_join e root file) directory \<in> fst ` set m)"
proof
  show "analyze_python_file e (path_join e root file) exclude_imports out0
           = (out0 @ [''Syntax error in '' @ path_join e root file @ '': '' @ msg],
              Inr \<lparr>imports_key = Some [], functions_key = [], classes_key = []\<rparr>)"
    using analyze_python_file_syntax_error [OF assms(4)] by (simp add: empty_structure_def)
  from analyze_roots_returns [OF assms(5), of directory exclude_imports out "[]"]
  obtain out' m where
    r: "analyze_directory e directory exclude_imports out = (out', Inr m)"
    and k: "fst ` set m = {relpath e (path_join e r f) directory | r ds fs f.
                     (r, ds, fs) \<in> set (os_walk e directory) \<and> f \<in> set fs \<and> endswith f ''.py''}"
    by (auto simp: analyze_directory_def)
  from assms(1-3) have "relpath e (path_join e root file) directory \<in> fst ` set m"
    unfolding k by blast
  with r show "\<exists>out' m. analyze_directory e directory exclude_imports out = (out', Inr m)
               \<and> relpath e (path_join e root file) directory \<in> fst ` set m"
    by blast
qed

lemma example_env_simps:
  "os_walk example_env ''proj''
     = [(''proj'', [''pkg''], [''good.py'', ''bad.py'', ''notes.txt'']), (''proj/pkg'', [], [''mod.py''])]"
  "path_join example_env a b = a @ ''/'' @ b"
  "try_parse example_env ''proj/bad.py'' = Inl (SyntaxError ''invalid syntax (bad.py, line 1)'')"
  "try_parse example_env ''proj/good.py'' = Inr (Other [Import [Alias ''os'' None]])"
  "try_parse example_env ''proj/pkg/mod.py'' = Inr (Other [FunctionDef ''f'' [Other [], Other []]])"
  "relpath example_env p d = drop (length d + 1) p"
  by (simp_all add: example_env_def try_parse_def)

theorem syntax_error_file_kept_witness:
  "analyze_python_file example_env ''proj/bad.py'' False []
     = ([''Syntax error in proj/bad.py: invalid syntax (bad.py, line 1)''],
        Inr \<lparr>imports_key = Some [], functions_key = [], classes_key = []\<rparr>)
   \<and> (\<exists>out' m. analyze_directory example_env ''proj'' False [] = (out', Inr m)
         \<and> ''bad.py'' \<in> fst ` set m)"
proof -
  have 1: "(''proj'', [''pkg''], [''good.py'', ''bad.py'', ''notes.txt'']) \<in> set (os_walk example_env ''proj'')"
    by (simp add: example_env_simps)
  have 2: "''bad.py'' \<in> set [''good.py'', ''bad.py'', ''notes.txt'']"
    by simp
  have 3: "endswith ''bad.py'' ''.py''"
    by (simp add: endswith_def)
  have 4: "try_parse example_env (path_join example_env ''proj'' ''bad.py'')
             = Inl (SyntaxError ''invalid syntax (bad.py, line 1)'')"
    by (simp add: example_env_simps)
  have 5: "\<forall>(r, ds, fs) \<in> set (os_walk example_env ''proj''). \<forall>f \<in> set fs.
           endswith f ''.py'' \<longrightarrow> \<not> raises_other example_env (path_join example_env r f)"
    by (simp add: example_env_simps raises_other_def endswith_def)
  from syntax_error_file_kept [OF 1 2 3 4 5, of False "[]" "[]"]
  show ?thesis by (simp add: example_env_simps)
qed

text \<open>
  C2. With \<open>exclude_imports\<close> true the key \<open>imports\<close> is deleted after the loop, but the
  handler of \<open>SyntaxError\<close> returns before that: for the file \<open>bad.py\<close>, whose text
  \<^verbatim>\<open>def f(:\<close> does not parse, the returned structure still has \<open>imports = []\<close>, while a
  file that parses has no such key.
\<close>

theorem syntax_error_keeps_imports_key:
  "snd (analyze_python_file example_env ''proj/bad.py'' True [])
     = Inr \<lparr>imports_key = Some [], functions_key = [], classes_key = []\<rparr>
   \<and> snd (analyze_python_file example_env ''proj/good.py'' True [])
     = Inr \<lparr>imports_key = None, functions_key = [], classes_key = []\<rparr>"
  by (simp add: analyze_python_file_def example_env_simps empty_structure_def
        analyze_tree_def walk_def)

section \<open>What the renderers emit\<close>

lemma foldl_emit:
  assumes "\<And>acc x. h acc x = acc @ g x"
  shows "foldl h acc xs = acc @ concat (map g xs)"
  by (induction xs arbitrary: acc) (simp_all add: assms)

lemma foldl_emit_one: "foldl (\<lambda>acc x. acc @ [g x]) acc xs = acc @ map g xs"
  by (induction xs arbitrary: acc) simp_all

lemma print_imports_emits:
  "print_imports g indent contents out
     = out @ (if imports_list contents \<noteq> [] \<and> \<not> g
              then (indent @ ''Imports:'') # map (\<lambda>imp. indent @ ''  - '' @ imp) (imports_list contents)
              else [])"
  by (simp add: print_imports_def imports_list_def foldl_emit_one split: option.split)

lemma print_functions_emits:
  "print_functions indent func_symbol contents out
     = out @ map (\<lambda>func. indent @ func_symbol @ '' '' @ func @ ''()'') (functions_key contents)"
  by (simp add: print_functions_def foldl_emit_one)

lemma print_class_emits:
  "print_class indent class_symbol out cm
     = out @ (indent @ class_symbol @ '' '' @ fst cm)
             # map (\<lambda>method. indent @ ''  - '' @ method @ ''()'') (snd cm)"
  by (cases cm) (simp add: print_class_def foldl_emit_one)

lemma print_class_entries_emits:
  "print_class_entries indent class_symbol contents out
     = out @ concat (map (\<lambda>cm. (indent @ class_symbol @ '' '' @ fst cm)
                               # map (\<lambda>method. indent @ ''  - '' @ method @ ''()'') (snd cm))
                      (classes_key contents))"
  by (simp add: print_class_entries_def foldl_emit [OF print_class_emits])

lemma print_functions_append:
  "print_functions indent func_symbol contents out
     = out @ print_functions indent func_symbol contents []"
  by (simp add: print_functions_emits)

lemma print_class_entries_append:
  "print_class_entries indent class_symbol contents out
     = out @ print_class_entries indent class_symbol contents []"
  by (simp add: print_class_entries_emits)

lemma print_file_emits:
  "print_file g indent func_symbol class_symbol out (file_path, contents)
     = out @ [file_path @ '':'']
         @ (if imports_list contents \<noteq> [] \<and> \<not> g
            then (indent @ ''Imports:'') # map (\<lambda>imp. indent @ ''  - '' @ imp) (imports_list contents)
            else [])
         @ print_functions indent func_symbol contents []
         @ print_class_entries indent class_symbol contents []
         @ ['''']"
proof -
  have "print_file g indent func_symbol class_symbol out (file_path, contents)
      = print_class_entries indent class_symbol contents
          (print_functions indent func_symbol contents
            (print_imports g indent contents (out @ [file_path @ '':'']))) @ ['''']"
    by (simp add: print_file_def Let_def)
  also have "\<dots> = out @ [file_path @ '':'']
         @ (if imports_list contents \<noteq> [] \<and> \<not> g
            then (indent @ ''Imports:'') # map (\<lambda>imp. indent @ ''  - '' @ imp) (imports_list contents)
            else [])
         @ print_functions indent func_symbol contents []
         @ print_class_entries indent class_symbol contents []
         @ ['''']"
    by (subst print_class_entries_append, subst print_functions_append, subst print_imports_emits)
       simp
  finally show ?thesis .
qed

lemma print_file_append:
  "print_file g indent func_symbol class_symbol out item
     = out @ print_file g indent func_symbol class_symbol [] item"
  by (cases item) (simp add: print_file_emits)

lemma print_structure_append:
  "print_structure g m indent func_symbol class_symbol out
     = out @ print_structure g m indent func_symbol class_symbol []"
proof (cases "m = []")
  case True
  then show ?thesis by (simp add: print_structure_def)
next
  case False
  have "foldl (print_file g indent func_symbol class_symbol) acc m
      = acc @ concat (map (print_file g indent func_symbol class_symbol []) m)" for acc
    by (rule foldl_emit) (rule print_file_append)
  from this [of out] this [of "[]"] False show ?thesis
    by (simp add: print_structure_def)
qed

lemma dot_function_emits:
  "dot_function file_node lines func
     = lines @ [node_line (file_node @ ''_func_'' @ func) function_attrs (func @ ''()''),
                edge_line file_node (file_node @ ''_func_'' @ func)]"
  by (simp add: dot_function_def Let_def)

lemma dot_method_emits:
  "dot_method class_node lines method
     = lines @ [node_line (class_node @ ''_meth_'' @ method) function_attrs (method @ ''()''),
                edge_line class_node (class_node @ ''_meth_'' @ method)]"
  by (simp add: dot_method_def Let_def)

lemma dot_class_emits:
  "dot_class file_node lines cm
     = lines @ [node_line (file_node @ ''_cls_'' @ fst cm) class_attrs (fst cm),
                edge_line file_node (file_node @ ''_cls_'' @ fst cm)]
         @ concat (map (\<lambda>method.
              [node_line ((file_node @ ''_cls_'' @ fst cm) @ ''_meth_'' @ method)
                 function_attrs (method @ ''()''),
               edge_line (file_node @ ''_cls_'' @ fst cm)
                 ((file_node @ ''_cls_'' @ fst cm) @ ''_meth_'' @ method)]) (snd cm))"
  by (cases cm) (simp add: dot_class_def Let_def foldl_emit [OF dot_method_emits])

lemma dot_file_emits:
  "dot_file lines (file, content)
     = lines @ [node_line (file_node_name file) file_attrs file]
         @ concat (map (\<lambda>func.
              [node_line (file_node_name file @ ''_func_'' @ func) function_attrs (func @ ''()''),
               edge_line (file_node_name file) (file_node_name file @ ''_func_'' @ func)])
              (functions_key content))
         @ concat (map (\<lambda>cm.
              [node_line (file_node_name file @ ''_cls_'' @ fst cm) class_attrs (fst cm),
               edge_line (file_node_name file) (file_node_name file @ ''_cls_'' @ fst cm)]
              @ concat (map (\<lambda>method.
                  [node_line ((file_node_name file @ ''_cls_'' @ fst cm) @ ''_meth_'' @ method)
                     function_attrs (method @ ''()''),
                   edge_line (file_node_name file @ ''_cls_'' @ fst cm)
                     ((file_node_name file @ ''_cls_'' @ fst cm) @ ''_meth_'' @ method)]) (snd cm)))
              (classes_key content))"
  by (simp add: dot_file_def Let_def foldl_emit [OF dot_function_emits]
        foldl_emit [OF dot_class_emits])

lemma dot_file_append: "dot_file lines item = lines @ dot_file [] item"
  by (cases item) (simp add: dot_file_emits)

lemma generate_dot_lines_emits:
  "generate_dot_lines m = dot_header @ concat (map (dot_file []) m) @ [''}'']"
  by (simp add: generate_dot_lines_def foldl_emit [OF dot_file_append])

lemma file_node_name_map:
  "file_node_name file
     = map (\<lambda>c. if c = CHR ''.'' \<or> c = CHR ''/'' then CHR ''_'' else c) file"
  by (simp add: file_node_name_def replace_char_def)

section \<open>The output of the renderers\<close>

text \<open>
  C5, as amended. The block of a file has the \<open>Imports:\<close> sub-header, followed by one
  bulleted line for each import string, exactly when the \<open>imports\<close> entry of the file is
  present and not empty and the module-level \<open>args.exclude_imports\<close> is false. That value
  is the first argument here; the Python function reads it from the global \<open>args\<close>, it
  is not among its parameters.
\<close>

theorem imports_header_when_nonempty:
  "print_structure args_exclude_imports m indent func_symbol class_symbol out
     = out @ (if m = [] then [''No structure to print.'']
              else concat (map (\<lambda>item.
                     [fst item @ '':'']
                     @ print_imports args_exclude_imports indent (snd item) []
                     @ print_functions indent func_symbol (snd item) []
                     @ print_class_entries indent class_symbol (snd item) []
                     @ ['''']) m))
   \<and> print_imports args_exclude_imports indent contents []
     = (if imports_list contents \<noteq> [] \<and> \<not> args_exclude_imports
        then (indent @ ''Imports:'') # map (\<lambda>imp. indent @ ''  - '' @ imp) (imports_list contents)
        else [])"
proof
  have block: "print_file args_exclude_imports indent func_symbol class_symbol acc item
      = acc @ ([fst item @ '':'']
                     @ print_imports args_exclude_imports indent (snd item) []
                     @ print_functions indent func_symbol (snd item) []
                     @ print_class_entries indent class_symbol (snd item) []
                     @ [''''])" for acc item
    by (cases item) (simp add: print_file_emits print_imports_emits)
  show "print_structure args_exclude_imports m indent func_symbol class_symbol out
     = out @ (if m = [] then [''No structure to print.'']
              else concat (map (\<lambda>item.
                     [fst item @ '':'']
                     @ print_imports args_exclude_imports indent (snd item) []
                     @ print_functions indent func_symbol (snd item) []
                     @ print_class_entries indent class_symbol (snd item) []
                     @ ['''']) m))"
    unfolding print_structure_def foldl_emit [OF block] by simp
  show "print_imports args_exclude_imports indent contents []
     = (if imports_list contents \<noteq> [] \<and> \<not> args_exclude_imports
        then (indent @ ''Imports:'') # map (\<lambda>imp. indent @ ''  - '' @ imp) (imports_list contents)
        else [])"
    by (simp add: print_imports_emits)
qed

theorem imports_header_when_nonempty_witness:
  "print_structure False
     [(''a.py'', \<lparr>imports_key = Some [''import os''], functions_key = [''f''],
                  classes_key = [(''C'', [''m''])]\<rparr>)]
     ''    '' ''fn'' ''cls'' []
     = [''a.py:'', ''    Imports:'', ''      - import os'', ''    fn f()'',
        ''    cls C'', ''      - m()'', '''']"
  using imports_header_when_nonempty
    [of False "[(''a.py'', \<lparr>imports_key = Some [''import os''], functions_key = [''f''],
                  classes_key = [(''C'', [''m''])]\<rparr>)]" "''    ''" "''fn''" "''cls''" "[]"
        "\<lparr>imports_key = Some [''import os''], functions_key = [''f''],
                  classes_key = [(''C'', [''m''])]\<rparr>"]
  by (simp add: imports_list_def print_functions_emits print_class_entries_emits)

text \<open>
  The claim as stated fails twice. A file without imports, analysed with imports
  enabled, has \<open>imports = []\<close>: the entry is present and the configuration does not
  exclude imports, yet no sub-header is printed. And with one model and the same
  arguments, the output changes with the module-level \<open>args.exclude_imports\<close>.
\<close>

theorem imports_header_counterexample:
  "imports_key \<lparr>imports_key = Some [], functions_key = [''f''], classes_key = []\<rparr> = Some []
   \<and> print_structure False
        [(''a.py'', \<lparr>imports_key = Some [], functions_key = [''f''], classes_key = []\<rparr>)]
        ''    '' ''fn'' ''cls'' []
      = [''a.py:'', ''    fn f()'', '''']
   \<and> print_structure True
        [(''a.py'', \<lparr>imports_key = Some [''import os''], functions_key = [], classes_key = []\<rparr>)]
        ''    '' ''fn'' ''cls'' []
      \<noteq> print_structure False
        [(''a.py'', \<lparr>imports_key = Some [''import os''], functions_key = [], classes_key = []\<rparr>)]
        ''    '' ''fn'' ''cls'' []"
  by (simp add: print_structure_def print_file_def print_imports_def print_functions_def
        print_class_entries_def)

text \<open>
  C9. Rendering twice gives the same output twice. The text renderer only appends to the
  standard output, and the lines of the second call are those of the first; the graph
  renderer returns a value that is determined by the entries of the model in their order.
\<close>

theorem rendering_repeatable:
  "print_structure args_exclude_imports m indent func_symbol class_symbol
     (print_structure args_exclude_imports m indent func_symbol class_symbol out)
     = out @ print_structure args_exclude_imports m indent func_symbol class_symbol []
           @ print_structure args_exclude_imports m indent func_symbol class_symbol []
   \<and> generate_dot m = join_str [CHR 0x0A] (dot_header @ concat (map (dot_file []) m) @ [''}''])
   \<and> (let first = generate_dot m; second = generate_dot m in first = second)"
proof (intro conjI)
  show "print_structure args_exclude_imports m indent func_symbol class_symbol
     (print_structure args_exclude_imports m indent func_symbol class_symbol out)
     = out @ print_structure args_exclude_imports m indent func_symbol class_symbol []
           @ print_structure args_exclude_imports m indent func_symbol class_symbol []"
    using print_structure_append
            [of args_exclude_imports m indent func_symbol class_symbol
                "print_structure args_exclude_imports m indent func_symbol class_symbol out"]
          print_structure_append [of args_exclude_imports m indent func_symbol class_symbol out]
    by simp
  show "generate_dot m = join_str [CHR 0x0A] (dot_header @ concat (map (dot_file []) m) @ [''}''])"
    by (simp add: generate_dot_def generate_dot_lines_emits)
  show "let first = generate_dot m; second = generate_dot m in first = second"
    by simp
qed

text \<open>
  C8, as amended. The identifier of a file node is the relative path with every \<open>/\<close> and
  every \<open>.\<close> replaced by \<open>_\<close>, whether or not the dot starts the extension. The lines
  that \<open>generate_dot\<close> adds for a file declare the file node under that identifier, each
  function under the file's identifier, \<open>_func_\<close> and the function's name, each class under
  the file's identifier, \<open>_cls_\<close> and the class's name, and each method under its class's
  identifier, \<open>_meth_\<close> and the method's name.
\<close>

theorem node_identifiers:
  "file_node_name file
     = map (\<lambda>c. if c = CHR ''.'' \<or> c = CHR ''/'' then CHR ''_'' else c) file
   \<and> dot_file lines (file, content)
     = lines @ [node_line (file_node_name file) file_attrs file]
         @ concat (map (\<lambda>func.
              [node_line (file_node_name file @ ''_func_'' @ func) function_attrs (func @ ''()''),
               edge_line (file_node_name file) (file_node_name file @ ''_func_'' @ func)])
              (functions_key content))
         @ concat (map (\<lambda>cm.
              [node_line (file_node_name file @ ''_cls_'' @ fst cm) class_attrs (fst cm),
               edge_line (file_node_name file) (file_node_name file @ ''_cls_'' @ fst cm)]
              @ concat (map (\<lambda>method.
                  [node_line ((file_node_name file @ ''_cls_'' @ fst cm) @ ''_meth_'' @ method)
                     function_attrs (method @ ''()''),
                   edge_line (file_node_name file @ ''_cls_'' @ fst cm)
                     ((file_node_name file @ ''_cls_'' @ fst cm) @ ''_meth_'' @ method)]) (snd cm)))
              (classes_key content))"
  using file_node_name_map dot_file_emits by blast

text \<open>
  The claim as stated fails on a path with a dot that does not start the extension: in
  \<^verbatim>\<open>.venv/lib/python3.11/site.py\<close> the dots of \<open>.venv\<close> and \<open>python3.11\<close> are replaced too.
\<close>

theorem extension_dots_counterexample:
  "file_node_name ''.venv/lib/python3.11/site.py'' = ''_venv_lib_python3_11_site_py''
   \<and> separators_and_extension_replaced ''.venv/lib/python3.11/site.py''
       = ''.venv_lib_python3.11_site_py''
   \<and> file_node_name ''.venv/lib/python3.11/site.py''
       \<noteq> separators_and_extension_replaced ''.venv/lib/python3.11/site.py''"
  by (simp add: file_node_name_def replace_char_def separators_and_extension_replaced_def
        split_extension_def)

section \<open>The rendering of imports\<close>

text \<open>
  C7. With \<open>exclude_imports\<close> false, \<open>imports\<close> is the concatenation, in the order of the
  walk, of what the visited nodes render to: a plain import gives the string
  \<open>import <module>\<close> for each module it names, a from-import gives the one string
  \<open>from <module> import <name1>, <name2>, ...\<close> with its names in their order, joined by a
  comma and a space (a missing module prints as \<open>None\<close>), and any other node gives
  nothing. With \<open>exclude_imports\<close> true the loop appends nothing, and the key is deleted at
  the end.
\<close>

theorem imports_rendered:
  "imports_key (analyze_tree False tree)
     = Some (concat (map (\<lambda>n.
          case n of
            Import names \<Rightarrow> map (\<lambda>a. ''import '' @ alias_name a) names
          | ImportFrom module names level \<Rightarrow>
              [''from '' @ (case module of None \<Rightarrow> ''None'' | Some m \<Rightarrow> m) @ '' import ''
                 @ (case names of
                      [] \<Rightarrow> []
                    | a # rest \<Rightarrow> alias_name a @ concat (map (\<lambda>b. '', '' @ alias_name b) rest))]
          | FunctionDef name children \<Rightarrow> []
          | ClassDef name bases kws body decorator_list \<Rightarrow> []
          | Other children \<Rightarrow> []) (walk tree)))
   \<and> imports_key (foldl (visit True) s ns) = imports_key s
   \<and> imports_key (analyze_tree True tree) = None"
proof (intro conjI)
  have joined: "join_str sep xs
      = (case xs of [] \<Rightarrow> [] | x # rest \<Rightarrow> x @ concat (map (\<lambda>y. sep @ y) rest))"
    for sep xs
    by (induction sep xs rule: join_str.induct) simp_all
  have rendering: "import_rendering n
     = (case n of
          Import names \<Rightarrow> map (\<lambda>a. ''import '' @ alias_name a) names
        | ImportFrom module names level \<Rightarrow>
            [''from '' @ (case module of None \<Rightarrow> ''None'' | Some m \<Rightarrow> m) @ '' import ''
               @ (case names of
                    [] \<Rightarrow> []
                  | a # rest \<Rightarrow> alias_name a @ concat (map (\<lambda>b. '', '' @ alias_name b) rest))]
        | FunctionDef name children \<Rightarrow> []
        | ClassDef name bases kws body decorator_list \<Rightarrow> []
        | Other children \<Rightarrow> [])" for n
  proof (cases n)
    case (ImportFrom module names level)
    have "str_opt module = (case module of None \<Rightarrow> ''None'' | Some m \<Rightarrow> m)"
      by (cases module) simp_all
    moreover have "join_str '', '' (map alias_name names)
        = (case names of
             [] \<Rightarrow> []
           | a # rest \<Rightarrow> alias_name a @ concat (map (\<lambda>b. '', '' @ alias_name b) rest))"
      by (subst joined) (simp add: comp_def split: list.split)
    ultimately show ?thesis using ImportFrom by simp
  qed simp_all
  have "imports_key (analyze_tree False tree) = Some (concat (map import_rendering (walk tree)))"
    by (simp add: analyze_tree_def Let_def imports_foldl_visit empty_structure_def)
  then show "imports_key (analyze_tree False tree)
     = Some (concat (map (\<lambda>n.
          case n of
            Import names \<Rightarrow> map (\<lambda>a. ''import '' @ alias_name a) names
          | ImportFrom module names level \<Rightarrow>
              [''from '' @ (case module of None \<Rightarrow> ''None'' | Some m \<Rightarrow> m) @ '' import ''
                 @ (case names of
                      [] \<Rightarrow> []
                    | a # rest \<Rightarrow> alias_name a @ concat (map (\<lambda>b. '', '' @ alias_name b) rest))]
          | FunctionDef name children \<Rightarrow> []
          | ClassDef name bases kws body decorator_list \<Rightarrow> []
          | Other children \<Rightarrow> []) (walk tree)))"
    by (simp only: rendering [abs_def])
  show "imports_key (foldl (visit True) s ns) = imports_key s"
    by (rule imports_foldl_visit_excluded)
  show "imports_key (analyze_tree True tree) = None"
    by (simp add: analyze_tree_def Let_def)
qed

text \<open>
  On \<open>imports_example\<close>, once by the theorem and once by running the loop itself.
\<close>

theorem imports_rendered_witness:
  "imports_key (analyze_tree False imports_example)
     = Some [''import os'', ''import sys'', ''from None import x'', ''from a.b import c, d, g'']
   \<and> imports_key (analyze_tree True imports_example) = None"
proof -
  have walked: "walk imports_example
     = [imports_example,
        Import [Alias ''os'' None, Alias ''sys'' (Some ''system'')],
        FunctionDef ''f''
          [Other [],
           ImportFrom (Some ''a.b'') [Alias ''c'' None, Alias ''d'' (Some ''e''), Alias ''g'' None] 0],
        ImportFrom None [Alias ''x'' None] 1,
        Other [], Other [],
        Other [],
        ImportFrom (Some ''a.b'') [Alias ''c'' None, Alias ''d'' (Some ''e''), Alias ''g'' None] 0,
        Other [],
        Other [], Other [], Other []]"
    by (simp add: imports_example_def walk_def)
  have run: "imports_key (foldl (visit False) empty_structure (walk imports_example))
     = Some [''import os'', ''import sys'', ''from None import x'', ''from a.b import c, d, g'']"
    unfolding walked by (simp add: imports_example_def empty_structure_def)
  have by_theorem: "imports_key (analyze_tree False imports_example)
     = Some [''import os'', ''import sys'', ''from None import x'', ''from a.b import c, d, g'']
   \<and> imports_key (analyze_tree True imports_example) = None"
    using imports_rendered [of imports_example empty_structure "[]"]
    by (simp add: walked) (simp add: imports_example_def)
  from run by_theorem show ?thesis
    by (simp add: analyze_tree_def Let_def)
qed

section \<open>The graph of one file\<close>



end
